theory Spec2Isabelle
  imports Complex_Main "HOL-Library.Sublist"
begin

section \<open>Python values, exceptions and string operations\<close>

text \<open>
  The exceptions that the code of \<^verbatim>\<open>connection_manager.py\<close> can meet. All of them are
  subclasses of Python's \<^verbatim>\<open>Exception\<close>; \<^verbatim>\<open>TimeoutExpired\<close> is a subclass of
  \<^verbatim>\<open>SubprocessError\<close>. Interpreter-level signals that are not subclasses of
  \<^verbatim>\<open>Exception\<close> (a keyboard interrupt, a system exit) are process termination from
  outside and are not part of the model.
\<close>

datatype exn =
    SubprocessError | TimeoutExpired | OSError
  | ValueError | IndexError | KeyError | TypeError | AttributeError

definition is_subprocess_error :: "exn \<Rightarrow> bool" where
  "is_subprocess_error e = (e = SubprocessError \<or> e = TimeoutExpired)"

text \<open>
  Latencies are Python floats in the source. They are modelled as exact reals: sums, quotients
  and comparisons are those of the real numbers, without rounding, infinities or NaN.
\<close>

text \<open>\<^verbatim>\<open>sub in s\<close> on strings: \<^verbatim>\<open>sub\<close> occurs as a contiguous piece of \<^verbatim>\<open>s\<close>.\<close>

fun str_in :: "string \<Rightarrow> string \<Rightarrow> bool" where
  "str_in sub [] = (sub = [])"
| "str_in sub (c # cs) = (prefix sub (c # cs) \<or> str_in sub cs)"

text \<open>
  \<^verbatim>\<open>s.split(sep)\<close> for a non-empty separator: the pieces between the occurrences of
  \<^verbatim>\<open>sep\<close>, found from the left without overlap. The accumulator holds the current piece
  reversed.
\<close>

fun split_acc :: "string \<Rightarrow> string \<Rightarrow> string \<Rightarrow> string list" where
  "split_acc sep acc [] = [rev acc]"
| "split_acc sep acc (c # cs) =
     (if sep \<noteq> [] \<and> prefix sep (c # cs)
      then rev acc # split_acc sep [] (drop (length sep - 1) cs)
      else split_acc sep (c # acc) cs)"

definition split :: "string \<Rightarrow> string \<Rightarrow> string list" where
  "split sep s = split_acc sep [] s"

text \<open>\<^verbatim>\<open>xs[i]\<close> for a non-negative index: an index out of range raises \<^verbatim>\<open>IndexError\<close>.\<close>

definition py_index :: "'a list \<Rightarrow> nat \<Rightarrow> exn + 'a" where
  "py_index xs i = (if i < length xs then Inr (xs ! i) else Inl IndexError)"

text \<open>
  The characters that \<^verbatim>\<open>str.isspace\<close> accepts in the ASCII range: tab, line feed, vertical
  tab, form feed, carriage return, the four separators 28 to 31, and the space.
\<close>

definition is_space :: "char \<Rightarrow> bool" where
  "is_space c = (let n = (of_char c :: nat) in (9 \<le> n \<and> n \<le> 13) \<or> (28 \<le> n \<and> n \<le> 32))"

definition strip :: "string \<Rightarrow> string" where
  "strip s = rev (dropWhile is_space (rev (dropWhile is_space s)))"

definition is_digit :: "char \<Rightarrow> bool" where
  "is_digit c = (let n = (of_char c :: nat) in 48 \<le> n \<and> n \<le> 57)"

definition digit_val :: "char \<Rightarrow> int" where
  "digit_val c = of_char c - 48"

text \<open>The number written by a string of decimal digits, most significant digit first.\<close>

fun digits_val :: "int \<Rightarrow> string \<Rightarrow> int" where
  "digits_val acc [] = acc"
| "digits_val acc (c # cs) = digits_val (10 * acc + digit_val c) cs"

text \<open>
  Python allows single underscores inside a numeric literal given to \<^verbatim>\<open>float\<close>: each
  underscore must stand between two digits. The first argument is the previous character
  (\<^verbatim>\<open>None\<close> at the start).
\<close>

fun underscores_ok :: "char option \<Rightarrow> string \<Rightarrow> bool" where
  "underscores_ok prev [] = True"
| "underscores_ok prev (c # cs) =
     (if c = CHR ''_''
      then (case prev of None \<Rightarrow> False | Some p \<Rightarrow> is_digit p)
           \<and> (case cs of [] \<Rightarrow> False | d # _ \<Rightarrow> is_digit d)
           \<and> underscores_ok (Some c) cs
      else underscores_ok (Some c) cs)"

text \<open>The value \<^verbatim>\<open>m * 10 ** e\<close> for an integer exponent.\<close>

definition scale10 :: "real \<Rightarrow> int \<Rightarrow> real" where
  "scale10 m e = (if 0 \<le> e then m * 10 ^ nat e else m / 10 ^ nat (- e))"

text \<open>
  The exponent part of a float literal, after the mantissa: empty, or \<^verbatim>\<open>e\<close>/\<^verbatim>\<open>E\<close>, an
  optional sign and at least one digit, and nothing else. \<^verbatim>\<open>None\<close> is a malformed
  exponent.
\<close>

definition parse_exponent :: "string \<Rightarrow> int option" where
  "parse_exponent t =
     (case t of
        [] \<Rightarrow> Some 0
      | e # r \<Rightarrow>
          if e = CHR ''e'' \<or> e = CHR ''E'' then
            (let (neg, ds) =
                   (case r of
                      [] \<Rightarrow> (False, [])
                    | x # r' \<Rightarrow>
                        if x = CHR ''-'' then (True, r')
                        else if x = CHR ''+'' then (False, r')
                        else (False, r))
             in if ds \<noteq> [] \<and> list_all is_digit ds
                then Some (if neg then - digits_val 0 ds else digits_val 0 ds)
                else None)
          else None)"

text \<open>
  \<^verbatim>\<open>float(s)\<close> on a string, for decimal literals: surrounding white space is dropped; then
  an optional sign, digits with an optional fractional part (at least one digit in all), and
  an optional exponent. \<^verbatim>\<open>None\<close> stands for the \<^verbatim>\<open>ValueError\<close> that Python raises on
  anything else. The spellings \<^verbatim>\<open>inf\<close>, \<^verbatim>\<open>infinity\<close> and \<^verbatim>\<open>nan\<close>, which Python accepts
  and which have no real value, and digits outside ASCII are not modelled.
\<close>

definition py_float :: "string \<Rightarrow> real option" where
  "py_float s0 =
     (let s = strip s0 in
      if \<not> underscores_ok None s then None
      else
        let t = filter (\<lambda>c. c \<noteq> CHR ''_'') s;
            (neg, t1) =
              (case t of
                 [] \<Rightarrow> (False, [])
               | x # r \<Rightarrow>
                   if x = CHR ''-'' then (True, r)
                   else if x = CHR ''+'' then (False, r)
                   else (False, t));
            ip = takeWhile is_digit t1;
            t2 = dropWhile is_digit t1;
            (fp, t3) =
              (case t2 of
                 [] \<Rightarrow> ([], [])
               | x # r \<Rightarrow>
                   if x = CHR ''.'' then (takeWhile is_digit r, dropWhile is_digit r)
                   else ([], t2))
        in if ip = [] \<and> fp = [] then None
           else
             (case parse_exponent t3 of
                None \<Rightarrow> None
              | Some e \<Rightarrow>
                  let m = real_of_int (digits_val 0 (ip @ fp)) / 10 ^ length fp;
                      v = scale10 m e
                  in Some (if neg then - v else v)))"

text \<open>
  \<^verbatim>\<open>re.findall(r'(\d+\.\d+|\d+) ms', output)\<close>. \<open>match_ms\<close> tries the pattern at the
  start of a string and gives the captured group and the length of the whole match. Both
  digit runs are greedy, and a shorter run can never be followed by the character the
  pattern wants next, so only the maximal runs need to be tried; the first alternative
  (with a fractional part) is tried before the second.
\<close>

definition match_ms :: "string \<Rightarrow> (string \<times> nat) option" where
  "match_ms s =
     (let d1 = takeWhile is_digit s; r1 = dropWhile is_digit s in
      if d1 = [] then None
      else
        let alt2 = (if prefix '' ms'' r1 then Some (d1, length d1 + 3) else None) in
        (case r1 of
           [] \<Rightarrow> alt2
         | x # r2 \<Rightarrow>
             if x = CHR ''.'' then
               (let d2 = takeWhile is_digit r2; r3 = dropWhile is_digit r2 in
                if d2 \<noteq> [] \<and> prefix '' ms'' r3
                then Some (d1 @ ''.'' @ d2, length d1 + 1 + length d2 + 3)
                else alt2)
             else alt2))"

fun findall_ms :: "string \<Rightarrow> string list" where
  "findall_ms [] = []"
| "findall_ms (c # cs) =
     (case match_ms (c # cs) of
        Some (g, n) \<Rightarrow> g # findall_ms (drop (n - 1) cs)
      | None \<Rightarrow> findall_ms cs)"

section \<open>Configuration and network state\<close>

definition PING_HOSTS :: "string list" where
  "PING_HOSTS = [''1.1.1.1'', ''8.8.8.8'']"

definition CHECK_INTERVAL :: nat where
  "CHECK_INTERVAL = 60"

text \<open>The module-level dictionary \<^verbatim>\<open>network_state\<close>, one field per key.\<close>

record network_state =
  last_online :: real
  is_online :: bool
  connection_quality :: string
  reconnect_count :: int
  bandwidth_mode :: string

text \<open>The dictionary as the module creates it; \<open>t0\<close> is the clock at import time.\<close>

definition initial_state :: "real \<Rightarrow> network_state" where
  "initial_state t0 =
     \<lparr> last_online = t0, is_online = True, connection_quality = ''good'',
       reconnect_count = 0, bandwidth_mode = ''normal'' \<rparr>"

section \<open>The outside world of one poll cycle\<close>

text \<open>
  \<^verbatim>\<open>subprocess.run\<close> without \<^verbatim>\<open>check=True\<close> either returns a completed process (its
  return code and its captured standard output) or raises: \<^verbatim>\<open>TimeoutExpired\<close> when the
  timeout passes, \<^verbatim>\<open>OSError\<close> when the program cannot be started.
\<close>

datatype proc_result = Completed int string | Raised exn

text \<open>JSON values as Python's \<^verbatim>\<open>json\<close> decodes them; \<open>JNull\<close> is Python's \<^verbatim>\<open>None\<close>.\<close>

datatype json =
    JNull | JBool bool | JNum real | JStr string
  | JList "json list" | JDict "(string \<times> json) list"

text \<open>
  What \<^verbatim>\<open>requests.get\<close>/\<^verbatim>\<open>requests.post\<close> give: a response, with its status code, its
  \<^verbatim>\<open>X-Transmission-Session-Id\<close> header when present, and its body decoded by
  \<^verbatim>\<open>response.json()\<close> (\<open>None\<close> when the body is not JSON); or a
  \<^verbatim>\<open>requests.RequestException\<close> (connection refused, timeout). The exception that
  \<^verbatim>\<open>response.json()\<close> raises on a body that is not JSON is
  \<^verbatim>\<open>requests.exceptions.JSONDecodeError\<close>, itself a \<^verbatim>\<open>RequestException\<close>, as the library
  documents for all the exceptions it raises.
\<close>

datatype http_reply =
    Response nat "string option" "json option"
  | RequestException

text \<open>
  Everything one poll cycle reads from outside: the outcome of the one-packet ping of each
  host (the reachability check), the outcome of the three-packet ping of each host (the
  measurement), the clock, and, for each RPC method, the replies of Transmission to the
  session-id request and to the POST of that call. Each method is called at most once in a
  cycle.
\<close>

record env =
  ping1 :: "string \<Rightarrow> proc_result"
  ping3 :: "string \<Rightarrow> proc_result"
  clock :: real
  gateway :: "string \<Rightarrow> http_reply \<times> http_reply"

text \<open>
  What a cycle does that is visible outside: a call of \<^verbatim>\<open>transmission_rpc_call\<close> (method,
  arguments, and what the call returned), the error line of the loop's exception handler,
  and a sleep.
\<close>

datatype event =
    RpcCall string "(string \<times> json) list" json
  | LogError exn
  | Sleep nat

section \<open>The gateway: RPC calls to Transmission\<close>

definition get_transmission_session_id :: "http_reply \<Rightarrow> string" where
  "get_transmission_session_id reply =
     (case reply of
        Response status_code header body \<Rightarrow>
          if status_code = 409
          then (case header of Some v \<Rightarrow> v | None \<Rightarrow> [])
          else []
      | RequestException \<Rightarrow> [])"

text \<open>
  The result is the decoded body of a reply with status 200, and \<open>JNull\<close> (Python's
  \<^verbatim>\<open>None\<close>) in every other case: no session id, another status, a request exception.
\<close>

definition transmission_rpc_call ::
  "(string \<Rightarrow> http_reply \<times> http_reply) \<Rightarrow> string \<Rightarrow> (string \<times> json) list \<Rightarrow> json" where
  "transmission_rpc_call gw method arguments =
     (let session_id = get_transmission_session_id (fst (gw method)) in
      if session_id = [] then JNull
      else
        (case snd (gw method) of
           Response status_code header body \<Rightarrow>
             if status_code = 200
             then (case body of Some j \<Rightarrow> j | None \<Rightarrow> JNull)
             else JNull
         | RequestException \<Rightarrow> JNull))"

text \<open>A call together with the event it leaves in the trace.\<close>

definition rpc :: "env \<Rightarrow> string \<Rightarrow> (string \<times> json) list \<Rightarrow> json \<times> event list" where
  "rpc w method arguments =
     (let r = transmission_rpc_call (gateway w) method arguments
      in (r, [RpcCall method arguments r]))"

definition pause_all_torrents :: "env \<Rightarrow> event list" where
  "pause_all_torrents w = snd (rpc w ''torrent-stop'' [])"

definition resume_all_torrents :: "env \<Rightarrow> event list" where
  "resume_all_torrents w = snd (rpc w ''torrent-start'' [])"

section \<open>Reachability check and latency measurement\<close>

text \<open>
  \<^verbatim>\<open>check_network_connectivity\<close>: the first host whose ping returns 0 makes the result
  \<^verbatim>\<open>True\<close>; a subprocess error moves on to the next host; any other exception leaves the
  function.
\<close>

fun check_loop :: "(string \<Rightarrow> proc_result) \<Rightarrow> string list \<Rightarrow> exn + bool" where
  "check_loop run [] = Inr False"
| "check_loop run (host # hosts) =
     (case run host of
        Completed returncode output \<Rightarrow>
          if returncode = 0 then Inr True else check_loop run hosts
      | Raised e \<Rightarrow>
          if is_subprocess_error e then check_loop run hosts else Inl e)"

definition check_network_connectivity :: "env \<Rightarrow> exn + bool" where
  "check_network_connectivity w = check_loop (ping1 w) PING_HOSTS"

text \<open>
  The body of the inner \<^verbatim>\<open>try\<close> of \<^verbatim>\<open>measure_connection_quality\<close>, for the output of one
  successful ping: \<open>Inr (Some t)\<close> when a time \<open>t\<close> is added to the total, \<open>Inr None\<close>
  when the block ends without adding anything, \<open>Inl e\<close> when it raises \<open>e\<close>.
\<close>

definition extract_avg_time :: "string \<Rightarrow> exn + real option" where
  "extract_avg_time output =
     (if str_in ''min/avg/max'' output then
        (case py_index (split ''min/avg/max'' output) 1 of
           Inl e \<Rightarrow> Inl e
         | Inr p \<Rightarrow>
             let parts = strip p in
             if str_in ''/'' parts then
               (case py_index (split ''/'' parts) 1 of
                  Inl e \<Rightarrow> Inl e
                | Inr a \<Rightarrow>
                    (case py_float (strip a) of
                       None \<Rightarrow> Inl ValueError
                     | Some avg_time \<Rightarrow> Inr (Some avg_time)))
             else Inr None)
      else if str_in ''Average'' output then
        (case py_index (split ''Average ='' output) 1 of
           Inl e \<Rightarrow> Inl e
         | Inr p \<Rightarrow>
             (case py_index (split ''ms'' p) 0 of
                Inl e \<Rightarrow> Inl e
              | Inr a \<Rightarrow>
                  (case py_float (strip a) of
                     None \<Rightarrow> Inl ValueError
                   | Some avg_time \<Rightarrow> Inr (Some avg_time))))
      else
        (let times = findall_ms output in
         if times \<noteq> [] then
           (if list_all (\<lambda>t. py_float t \<noteq> None) times then
              (let time_values = map (\<lambda>t. the (py_float t)) times
               in Inr (Some (sum_list time_values / real (length time_values))))
            else Inl ValueError)
         else Inr None))"

text \<open>
  The body of the \<^verbatim>\<open>for\<close> loop for one host: the time this host adds to
  \<^verbatim>\<open>total_time\<close> (and then 1 to \<^verbatim>\<open>successful_pings\<close>), or nothing, or an exception that
  leaves the function. A value or index error of the extraction is caught and counted as
  1000 ms; a subprocess error skips the host; a non-zero return code adds nothing.
\<close>

definition host_sample :: "proc_result \<Rightarrow> exn + real option" where
  "host_sample r =
     (case r of
        Raised e \<Rightarrow> if is_subprocess_error e then Inr None else Inl e
      | Completed returncode output \<Rightarrow>
          if returncode = 0 then
            (case extract_avg_time output of
               Inr t \<Rightarrow> Inr t
             | Inl e \<Rightarrow>
                 if e = ValueError \<or> e = IndexError then Inr (Some 1000) else Inl e)
          else Inr None)"

fun measure_loop ::
  "(string \<Rightarrow> proc_result) \<Rightarrow> string list \<Rightarrow> real \<times> nat \<Rightarrow> exn + (real \<times> nat)" where
  "measure_loop run [] (total_time, successful_pings) = Inr (total_time, successful_pings)"
| "measure_loop run (host # hosts) (total_time, successful_pings) =
     (case host_sample (run host) of
        Inl e \<Rightarrow> Inl e
      | Inr None \<Rightarrow> measure_loop run hosts (total_time, successful_pings)
      | Inr (Some avg_time) \<Rightarrow>
          measure_loop run hosts (total_time + avg_time, successful_pings + 1))"

text \<open>The end of \<^verbatim>\<open>measure_connection_quality\<close>, from the two counters to the tier.\<close>

definition classify :: "real \<times> nat \<Rightarrow> string" where
  "classify acc =
     (case acc of (total_time, successful_pings) \<Rightarrow>
        if successful_pings = 0 then ''offline''
        else
          let avg_ping = total_time / real successful_pings in
          if avg_ping < 200 then ''good''
          else if avg_ping < 500 then ''poor''
          else ''very_poor'')"

definition measure_connection_quality :: "env \<Rightarrow> exn + string" where
  "measure_connection_quality w =
     (case measure_loop (ping3 w) PING_HOSTS (0, 0) of
        Inl e \<Rightarrow> Inl e
      | Inr acc \<Rightarrow> Inr (classify acc))"

section \<open>Adjusting Transmission\<close>

text \<open>\<^verbatim>\<open>if settings: transmission_rpc_call("session-set", settings)\<close>.\<close>

definition apply_settings :: "env \<Rightarrow> (string \<times> json) list \<Rightarrow> event list" where
  "apply_settings w settings =
     (if settings \<noteq> [] then snd (rpc w ''session-set'' settings) else [])"

text \<open>
  \<^verbatim>\<open>adjust_transmission_settings\<close> writes \<^verbatim>\<open>bandwidth_mode\<close> into the network state and
  talks to Transmission; the result is the new state and the calls made, in order. The
  last branch is the source's \<^verbatim>\<open>else\<close>: it takes \<^verbatim>\<open>"good"\<close> and every other string.
\<close>

definition adjust_transmission_settings ::
  "string \<Rightarrow> env \<Rightarrow> network_state \<Rightarrow> network_state \<times> event list" where
  "adjust_transmission_settings quality w s =
     (if quality = ''offline'' then
        (let tr = pause_all_torrents w;
             settings =
               [(''alt-speed-enabled'', JBool True),
                (''alt-speed-down'', JNum 10),
                (''alt-speed-up'', JNum 1),
                (''download-queue-size'', JNum 1),
                (''peer-limit-global'', JNum 20),
                (''peer-limit-per-torrent'', JNum 5)];
             s1 = s\<lparr>bandwidth_mode := ''minimal''\<rparr>
         in (s1, tr @ apply_settings w settings))
      else if quality = ''very_poor'' then
        (let settings =
               [(''alt-speed-enabled'', JBool True),
                (''alt-speed-down'', JNum 20),
                (''alt-speed-up'', JNum 2),
                (''download-queue-size'', JNum 1),
                (''peer-limit-global'', JNum 30),
                (''peer-limit-per-torrent'', JNum 10)];
             s1 = s\<lparr>bandwidth_mode := ''minimal''\<rparr>
         in (s1, apply_settings w settings))
      else if quality = ''poor'' then
        (let settings =
               [(''alt-speed-enabled'', JBool True),
                (''alt-speed-down'', JNum 50),
                (''alt-speed-up'', JNum 5),
                (''download-queue-size'', JNum 2),
                (''peer-limit-global'', JNum 50),
                (''peer-limit-per-torrent'', JNum 15)];
             s1 = s\<lparr>bandwidth_mode := ''conservative''\<rparr>
         in (s1, apply_settings w settings))
      else
        (let settings =
               [(''alt-speed-enabled'', JBool False),
                (''download-queue-size'', JNum 3),
                (''peer-limit-global'', JNum 100),
                (''peer-limit-per-torrent'', JNum 30)];
             s1 = s\<lparr>bandwidth_mode := ''normal''\<rparr>;
             tr = (if connection_quality s1 = ''offline''
                   then resume_all_torrents w else [])
         in (s1, tr @ apply_settings w settings)))"

section \<open>The torrent list and its report\<close>

text \<open>
  The decoded reply of \<^verbatim>\<open>torrent-get\<close> is whatever JSON Transmission sent, so the
  operations on it are Python's dynamic ones, with their type errors. A \<open>JDict\<close> holds the
  items of a dictionary, each key once.
\<close>

definition py_truthy :: "json \<Rightarrow> bool" where
  "py_truthy j =
     (case j of
        JNull \<Rightarrow> False
      | JBool b \<Rightarrow> b
      | JNum x \<Rightarrow> x \<noteq> 0
      | JStr s \<Rightarrow> s \<noteq> []
      | JList xs \<Rightarrow> xs \<noteq> []
      | JDict d \<Rightarrow> d \<noteq> [])"

text \<open>\<^verbatim>\<open>key in j\<close> for a string key.\<close>

definition py_contains :: "string \<Rightarrow> json \<Rightarrow> exn + bool" where
  "py_contains key j =
     (case j of
        JDict d \<Rightarrow> Inr (List.member (map fst d) key)
      | JList xs \<Rightarrow> Inr (List.member xs (JStr key))
      | JStr s \<Rightarrow> Inr (str_in key s)
      | JNull \<Rightarrow> Inl TypeError
      | JBool b \<Rightarrow> Inl TypeError
      | JNum x \<Rightarrow> Inl TypeError)"

text \<open>\<^verbatim>\<open>j[key]\<close> for a string key.\<close>

definition py_getitem :: "json \<Rightarrow> string \<Rightarrow> exn + json" where
  "py_getitem j key =
     (case j of
        JDict d \<Rightarrow> (case map_of d key of Some v \<Rightarrow> Inr v | None \<Rightarrow> Inl KeyError)
      | JNull \<Rightarrow> Inl TypeError
      | JBool b \<Rightarrow> Inl TypeError
      | JNum x \<Rightarrow> Inl TypeError
      | JStr s \<Rightarrow> Inl TypeError
      | JList xs \<Rightarrow> Inl TypeError)"

text \<open>The elements that \<^verbatim>\<open>for t in j\<close> visits.\<close>

definition py_iter :: "json \<Rightarrow> exn + json list" where
  "py_iter j =
     (case j of
        JList xs \<Rightarrow> Inr xs
      | JDict d \<Rightarrow> Inr (map (\<lambda>kv. JStr (fst kv)) d)
      | JStr s \<Rightarrow> Inr (map (\<lambda>c. JStr [c]) s)
      | JNull \<Rightarrow> Inl TypeError
      | JBool b \<Rightarrow> Inl TypeError
      | JNum x \<Rightarrow> Inl TypeError)"

text \<open>\<^verbatim>\<open>t.get(key, 0) > 0\<close>: only a dictionary has \<^verbatim>\<open>get\<close>, only a number compares with 0.\<close>

definition rate_positive :: "json \<Rightarrow> string \<Rightarrow> exn + bool" where
  "rate_positive t key =
     (case t of
        JDict d \<Rightarrow>
          (case (case map_of d key of Some v \<Rightarrow> v | None \<Rightarrow> JNum 0) of
             JNum x \<Rightarrow> Inr (x > 0)
           | JBool b \<Rightarrow> Inr b
           | JNull \<Rightarrow> Inl TypeError
           | JStr s \<Rightarrow> Inl TypeError
           | JList xs \<Rightarrow> Inl TypeError
           | JDict d' \<Rightarrow> Inl TypeError)
      | JNull \<Rightarrow> Inl AttributeError
      | JBool b \<Rightarrow> Inl AttributeError
      | JNum x \<Rightarrow> Inl AttributeError
      | JStr s \<Rightarrow> Inl AttributeError
      | JList xs \<Rightarrow> Inl AttributeError)"

text \<open>\<^verbatim>\<open>sum(1 for t in torrents if t.get(key, 0) > 0)\<close>.\<close>

fun count_active :: "string \<Rightarrow> json list \<Rightarrow> exn + nat" where
  "count_active key [] = Inr 0"
| "count_active key (t # ts) =
     (case rate_positive t key of
        Inl e \<Rightarrow> Inl e
      | Inr b \<Rightarrow>
          (case count_active key ts of
             Inl e \<Rightarrow> Inl e
           | Inr n \<Rightarrow> Inr (if b then n + 1 else n)))"

definition get_torrent_list :: "env \<Rightarrow> (exn + json) \<times> event list" where
  "get_torrent_list w =
     (let (response, tr) =
            rpc w ''torrent-get''
              [(''fields'',
                JList [JStr ''id'', JStr ''name'', JStr ''status'', JStr ''downloadDir'',
                       JStr ''percentDone'', JStr ''rateDownload'', JStr ''rateUpload''])]
      in
        if \<not> py_truthy response then (Inr (JList []), tr)
        else
          (case py_contains ''arguments'' response of
             Inl e \<Rightarrow> (Inl e, tr)
           | Inr has_arguments \<Rightarrow>
               if \<not> has_arguments then (Inr (JList []), tr)
               else
                 (case py_getitem response ''arguments'' of
                    Inl e \<Rightarrow> (Inl e, tr)
                  | Inr arguments \<Rightarrow>
                      (case py_contains ''torrents'' arguments of
                         Inl e \<Rightarrow> (Inl e, tr)
                       | Inr has_torrents \<Rightarrow>
                           if \<not> has_torrents then (Inr (JList []), tr)
                           else (py_getitem arguments ''torrents'', tr)))))"

text \<open>
  The three lines of \<^verbatim>\<open>main\<close> that count and log the active torrents: they change nothing,
  but they raise when the list is not a list of dictionaries with numeric rates.
\<close>

definition log_torrent_status :: "json \<Rightarrow> exn option" where
  "log_torrent_status torrents =
     (case py_iter torrents of
        Inl e \<Rightarrow> Some e
      | Inr ts \<Rightarrow>
          (case count_active ''rateDownload'' ts of
             Inl e \<Rightarrow> Some e
           | Inr active_downloads \<Rightarrow>
               (case count_active ''rateUpload'' ts of
                  Inl e \<Rightarrow> Some e
                | Inr active_uploads \<Rightarrow> None)))"

section \<open>The main loop\<close>

text \<open>
  The \<^verbatim>\<open>try\<close> block of the loop of \<^verbatim>\<open>main\<close>: the exception that leaves it (if any), the
  network state as the block left it, and the calls it made. An exception does not undo
  the writes made before it.
\<close>

definition cycle_body :: "env \<Rightarrow> network_state \<Rightarrow> exn option \<times> network_state \<times> event list" where
  "cycle_body w s =
     (case check_network_connectivity w of
        Inl e \<Rightarrow> (Some e, s, [])
      | Inr online \<Rightarrow>
          if online then
            (case measure_connection_quality w of
               Inl e \<Rightarrow> (Some e, s, [])
             | Inr quality \<Rightarrow>
                 let s1 = s\<lparr>is_online := True, last_online := clock w,
                            connection_quality := quality, reconnect_count := 0\<rparr>;
                     (s2, tr1) = adjust_transmission_settings quality w s1;
                     (torrents, tr2) = get_torrent_list w
                 in (case torrents of
                       Inl e \<Rightarrow> (Some e, s2, tr1 @ tr2)
                     | Inr ts \<Rightarrow> (log_torrent_status ts, s2, tr1 @ tr2)))
          else
            (let s1 = s\<lparr>is_online := False, connection_quality := ''offline'',
                        reconnect_count := reconnect_count s + 1\<rparr>;
                 (s2, tr1) = adjust_transmission_settings ''offline'' w s1
             in (None, s2, tr1)))"

text \<open>
  One turn of \<^verbatim>\<open>while True\<close>: the \<^verbatim>\<open>try\<close> block, the handler \<^verbatim>\<open>except Exception\<close>, which
  logs the exception and ends normally, and the sleep. The first component is the
  exception that leaves the turn.
\<close>

definition loop_iteration :: "env \<Rightarrow> network_state \<Rightarrow> exn option \<times> network_state \<times> event list" where
  "loop_iteration w s =
     (case cycle_body w s of
        (raised, s1, tr) \<Rightarrow>
          (None, s1,
           tr @ (case raised of Some e \<Rightarrow> [LogError e] | None \<Rightarrow> [])
              @ [Sleep CHECK_INTERVAL]))"

text \<open>
  The loop over the environments of the first cycles, one per cycle. The loop has no exit:
  it stops early only when an exception leaves a turn, which is then the first component;
  \<open>None\<close> says that every cycle of the list ran and the loop goes on.
\<close>

fun main_loop :: "env list \<Rightarrow> network_state \<Rightarrow> exn option \<times> network_state \<times> event list" where
  "main_loop [] s = (None, s, [])"
| "main_loop (w # ws) s =
     (case loop_iteration w s of
        (Some e, s1, tr) \<Rightarrow> (Some e, s1, tr)
      | (None, s1, tr) \<Rightarrow>
          (case main_loop ws s1 of (r, s2, tr') \<Rightarrow> (r, s2, tr @ tr')))"

text \<open>\<^verbatim>\<open>main\<close>: ten seconds of sleep, then the loop, from the state the module created.\<close>

definition main :: "real \<Rightarrow> env list \<Rightarrow> exn option \<times> network_state \<times> event list" where
  "main t0 ws =
     (case main_loop ws (initial_state t0) of (r, s, tr) \<Rightarrow> (r, s, Sleep 10 # tr))"

text \<open>The network state after each of the cycles, in order.\<close>

fun states_after :: "env list \<Rightarrow> network_state \<Rightarrow> network_state list" where
  "states_after [] s = []"
| "states_after (w # ws) s =
     (let s1 = fst (snd (loop_iteration w s)) in s1 # states_after ws s1)"

section \<open>Observations on a cycle\<close>

text \<open>The methods of the RPC calls of a trace, in order.\<close>

fun rpc_methods :: "event list \<Rightarrow> string list" where
  "rpc_methods [] = []"
| "rpc_methods (RpcCall method arguments r # tr) = method # rpc_methods tr"
| "rpc_methods (LogError e # tr) = rpc_methods tr"
| "rpc_methods (Sleep n # tr) = rpc_methods tr"

text \<open>The settings of the \<^verbatim>\<open>session-set\<close> calls of a trace, in order.\<close>

fun applied_settings :: "event list \<Rightarrow> (string \<times> json) list list" where
  "applied_settings [] = []"
| "applied_settings (RpcCall method arguments r # tr) =
     (if method = ''session-set'' then arguments # applied_settings tr
      else applied_settings tr)"
| "applied_settings (LogError e # tr) = applied_settings tr"
| "applied_settings (Sleep n # tr) = applied_settings tr"


definition samples :: "env \<Rightarrow> real list" where
  "samples w =
     List.map_filter
       (\<lambda>host. case host_sample (ping3 w host) of Inr t \<Rightarrow> t | Inl e \<Rightarrow> None)
       PING_HOSTS"

text \<open>
  The tier a cycle records in \<^verbatim>\<open>network_state["connection_quality"]\<close>: \<^verbatim>\<open>"offline"\<close> when
  the reachability check fails, the result of the measurement when it succeeds, and none
  when an exception ends the cycle before.
\<close>

definition cycle_tier :: "env \<Rightarrow> string option" where
  "cycle_tier w =
     (case check_network_connectivity w of
        Inl e \<Rightarrow> None
      | Inr online \<Rightarrow>
          if online
          then (case measure_connection_quality w of Inl e \<Rightarrow> None | Inr quality \<Rightarrow> Some quality)
          else Some ''offline'')"

text \<open>
  The bandwidth mode that the specification gives for a quality tier: Offline and VeryPoor
  map to Minimal, Poor to Conservative, Good to Normal. A string that is no tier has none.
\<close>

definition spec_bandwidth_mode :: "string \<Rightarrow> string option" where
  "spec_bandwidth_mode tier =
     (if tier = ''offline'' \<or> tier = ''very_poor'' then Some ''minimal''
      else if tier = ''poor'' then Some ''conservative''
      else if tier = ''good'' then Some ''normal''
      else None)"

text \<open>
  The reconnect counter after a cycle, by the outcome of the reachability check: one more
  when no host is reachable; 0 when a host is reachable and the measurement returns,
  whatever tier it returns; unchanged when an exception ends the cycle before the state is
  written.
\<close>

definition count_after :: "int \<Rightarrow> env \<Rightarrow> int" where
  "count_after n w =
     (case check_network_connectivity w of
        Inl e \<Rightarrow> n
      | Inr online \<Rightarrow>
          if online
          then (case measure_connection_quality w of Inl e \<Rightarrow> n | Inr quality \<Rightarrow> 0)
          else n + 1)"

fun counts_after :: "int \<Rightarrow> env list \<Rightarrow> int list" where
  "counts_after n [] = []"
| "counts_after n (w # ws) = count_after n w # counts_after (count_after n w) ws"

section \<open>Concrete environments\<close>

text \<open>
  A Transmission that answers: the session-id request gets status 409 with the header, the
  POST gets status 200 and a JSON body; \<^verbatim>\<open>torrent-get\<close> lists one torrent that is
  downloading.
\<close>

definition gw_up :: "string \<Rightarrow> http_reply \<times> http_reply" where
  "gw_up method =
     (Response 409 (Some ''sid'') None,
      Response 200 None
        (Some (JDict
           [(''arguments'',
             (if method = ''torrent-get''
              then JDict [(''torrents'',
                     JList [JDict [(''id'', JNum 1), (''rateDownload'', JNum 2048),
                                   (''rateUpload'', JNum 0)]])]
              else JDict [])),
            (''result'', JStr ''success'')])))"

text \<open>A Transmission that cannot be reached: every request raises.\<close>

definition gw_down :: "string \<Rightarrow> http_reply \<times> http_reply" where
  "gw_down method = (RequestException, RequestException)"

text \<open>A Transmission whose torrent list holds a number where a torrent should be.\<close>

definition gw_malformed :: "string \<Rightarrow> http_reply \<times> http_reply" where
  "gw_malformed method =
     (Response 409 (Some ''sid'') None,
      Response 200 None
        (Some (JDict [(''arguments'', JDict [(''torrents'', JList [JNum 7])])])))"

text \<open>The summary lines of BusyBox ping and of iputils ping, and an output without one.\<close>

definition busybox_out :: string where
  "busybox_out = ''3 packets transmitted, 3 packets received, 0% packet loss round-trip min/avg/max = 10.1/12.3/15.0 ms''"

definition iputils_out :: string where
  "iputils_out = ''3 packets transmitted, 3 received, 0% packet loss, time 2003ms rtt min/avg/max/mdev = 10.1/12.3/15.0/1.2 ms''"

definition alive_out :: string where
  "alive_out = ''1.1.1.1 is alive''"

text \<open>Both hosts answer, with 12.3 ms on average.\<close>

definition w_good :: env where
  "w_good =
     \<lparr> ping1 = (\<lambda>host. Completed 0 busybox_out), ping3 = (\<lambda>host. Completed 0 busybox_out),
       clock = 100, gateway = gw_up \<rparr>"

text \<open>No host answers: every ping ends with return code 1.\<close>

definition w_unreachable :: env where
  "w_unreachable =
     \<lparr> ping1 = (\<lambda>host. Completed 1 []), ping3 = (\<lambda>host. Completed 1 []),
       clock = 100, gateway = gw_up \<rparr>"

text \<open>
  The one-packet check succeeds, but then every three-packet ping ends with return code 1
  and an output that holds no latency.
\<close>

definition w_lost :: env where
  "w_lost =
     \<lparr> ping1 = (\<lambda>host. Completed 0 busybox_out), ping3 = (\<lambda>host. Completed 1 ''garbage''),
       clock = 100, gateway = gw_up \<rparr>"

text \<open>Both hosts answer with the summary line of iputils ping.\<close>

definition w_iputils :: env where
  "w_iputils =
     \<lparr> ping1 = (\<lambda>host. Completed 0 iputils_out), ping3 = (\<lambda>host. Completed 0 iputils_out),
       clock = 100, gateway = gw_up \<rparr>"

text \<open>Both hosts answer, with success status and an output that has no summary line.\<close>

definition w_alive :: env where
  "w_alive =
     \<lparr> ping1 = (\<lambda>host. Completed 0 alive_out), ping3 = (\<lambda>host. Completed 0 alive_out),
       clock = 100, gateway = gw_up \<rparr>"


text \<open>The events of a trace that are not RPC calls: the logged exceptions and the sleeps.\<close>

fun other_events :: "event list \<Rightarrow> event list" where
  "other_events [] = []"
| "other_events (RpcCall method arguments r # tr) = other_events tr"
| "other_events (LogError e # tr) = LogError e # other_events tr"
| "other_events (Sleep n # tr) = Sleep n # other_events tr"

text \<open>The ping program cannot be started: \<^verbatim>\<open>subprocess.run\<close> raises an \<^verbatim>\<open>OSError\<close>.\<close>

definition w_noping :: env where
  "w_noping =
     \<lparr> ping1 = (\<lambda>host. Raised OSError), ping3 = (\<lambda>host. Raised OSError),
       clock = 100, gateway = gw_up \<rparr>"

text \<open>Both hosts answer, and Transmission sends a malformed torrent list.\<close>

definition w_malformed :: env where
  "w_malformed =
     \<lparr> ping1 = (\<lambda>host. Completed 0 busybox_out), ping3 = (\<lambda>host. Completed 0 busybox_out),
       clock = 100, gateway = gw_malformed \<rparr>"

text \<open>Both hosts answer, and Transmission cannot be reached.\<close>

definition w_gateway_down :: env where
  "w_gateway_down =
     \<lparr> ping1 = (\<lambda>host. Completed 0 busybox_out), ping3 = (\<lambda>host. Completed 0 busybox_out),
       clock = 100, gateway = gw_down \<rparr>"

text \<open>The state after a cycle without reachable host, from the initial state.\<close>

definition s_offline :: network_state where
  "s_offline =
     \<lparr> last_online = 0, is_online = False, connection_quality = ''offline'',
       reconnect_count = 1, bandwidth_mode = ''minimal'' \<rparr>"

section \<open>Traces and states of a cycle\<close>

lemma rpc_methods_append: "rpc_methods (a @ b) = rpc_methods a @ rpc_methods b"
  by (induction a rule: rpc_methods.induct) simp_all

lemma applied_settings_append: "applied_settings (a @ b) = applied_settings a @ applied_settings b"
  by (induction a rule: applied_settings.induct) simp_all

lemma rpc_trace: "snd (rpc w m a) = [RpcCall m a (transmission_rpc_call (gateway w) m a)]"
  by (simp add: rpc_def Let_def)

lemma get_torrent_list_methods: "rpc_methods (snd (get_torrent_list w)) = [''torrent-get'']"
  by (simp add: get_torrent_list_def rpc_def Let_def split: sum.splits)

lemma get_torrent_list_settings: "applied_settings (snd (get_torrent_list w)) = []"
  by (simp add: get_torrent_list_def rpc_def Let_def split: sum.splits)

lemma adjust_state:
  "fst (adjust_transmission_settings q w s) =
     s\<lparr>bandwidth_mode :=
         (if q = ''offline'' \<or> q = ''very_poor'' then ''minimal''
          else if q = ''poor'' then ''conservative'' else ''normal'')\<rparr>"
  by (simp add: adjust_transmission_settings_def Let_def)

lemma adjust_methods:
  "rpc_methods (snd (adjust_transmission_settings q w s)) =
     (if q = ''offline'' then [''torrent-stop'', ''session-set'']
      else if q = ''very_poor'' \<or> q = ''poor'' then [''session-set'']
      else if connection_quality s = ''offline'' then [''torrent-start'', ''session-set'']
      else [''session-set''])"
  by (simp add: adjust_transmission_settings_def Let_def rpc_methods_append rpc_trace
        apply_settings_def pause_all_torrents_def resume_all_torrents_def)


lemma adjust_settings:
  "applied_settings (snd (adjust_transmission_settings q w s)) =
     [if q = ''offline'' then
        [(''alt-speed-enabled'', JBool True), (''alt-speed-down'', JNum 10),
         (''alt-speed-up'', JNum 1), (''download-queue-size'', JNum 1),
         (''peer-limit-global'', JNum 20), (''peer-limit-per-torrent'', JNum 5)]
      else if q = ''very_poor'' then
        [(''alt-speed-enabled'', JBool True), (''alt-speed-down'', JNum 20),
         (''alt-speed-up'', JNum 2), (''download-queue-size'', JNum 1),
         (''peer-limit-global'', JNum 30), (''peer-limit-per-torrent'', JNum 10)]
      else if q = ''poor'' then
        [(''alt-speed-enabled'', JBool True), (''alt-speed-down'', JNum 50),
         (''alt-speed-up'', JNum 5), (''download-queue-size'', JNum 2),
         (''peer-limit-global'', JNum 50), (''peer-limit-per-torrent'', JNum 15)]
      else
        [(''alt-speed-enabled'', JBool False), (''download-queue-size'', JNum 3),
         (''peer-limit-global'', JNum 100), (''peer-limit-per-torrent'', JNum 30)]]"
  by (simp add: adjust_transmission_settings_def Let_def applied_settings_append rpc_trace
        apply_settings_def pause_all_torrents_def resume_all_torrents_def)

lemma classify_tiers:
  "classify acc = ''offline'' \<or> classify acc = ''good'' \<or> classify acc = ''poor''
     \<or> classify acc = ''very_poor''"
  by (cases acc) (simp add: classify_def Let_def)

lemma measure_tiers:
  assumes "measure_connection_quality w = Inr q"
  shows "q = ''offline'' \<or> q = ''good'' \<or> q = ''poor'' \<or> q = ''very_poor''"
proof -
  from assms obtain acc where "q = classify acc"
    by (auto simp: measure_connection_quality_def split: sum.splits)
  then show ?thesis using classify_tiers [of acc] by simp
qed

lemma cycle_body_state:
  "fst (snd (cycle_body w s)) =
     (case cycle_tier w of
        None \<Rightarrow> s
      | Some q \<Rightarrow>
          if check_network_connectivity w = Inr True then
            s\<lparr>is_online := True, last_online := clock w, connection_quality := q,
              reconnect_count := 0,
              bandwidth_mode :=
                (if q = ''offline'' \<or> q = ''very_poor'' then ''minimal''
                 else if q = ''poor'' then ''conservative'' else ''normal'')\<rparr>
          else
            s\<lparr>is_online := False, connection_quality := ''offline'',
              reconnect_count := reconnect_count s + 1, bandwidth_mode := ''minimal''\<rparr>)"
  by (simp add: cycle_body_def cycle_tier_def Let_def split_beta adjust_state
        split: sum.splits)

lemma cycle_body_methods:
  "rpc_methods (snd (snd (cycle_body w s))) =
     (case cycle_tier w of
        None \<Rightarrow> []
      | Some q \<Rightarrow>
          (if q = ''offline'' then [''torrent-stop'', ''session-set''] else [''session-set''])
          @ (if check_network_connectivity w = Inr True then [''torrent-get''] else []))"
  by (simp add: cycle_body_def cycle_tier_def Let_def split_beta adjust_methods
        rpc_methods_append get_torrent_list_methods split: sum.splits)

lemma cycle_body_settings:
  "applied_settings (snd (snd (cycle_body w s))) =
     (case cycle_tier w of
        None \<Rightarrow> []
      | Some q \<Rightarrow> applied_settings (snd (adjust_transmission_settings q w s)))"
  by (simp add: cycle_body_def cycle_tier_def Let_def split_beta adjust_settings
        applied_settings_append get_torrent_list_settings split: sum.splits)

lemma loop_iteration_state: "fst (snd (loop_iteration w s)) = fst (snd (cycle_body w s))"
  by (simp add: loop_iteration_def split_beta)

lemma loop_iteration_methods:
  "rpc_methods (snd (snd (loop_iteration w s))) = rpc_methods (snd (snd (cycle_body w s)))"
  by (simp add: loop_iteration_def split_beta rpc_methods_append split: option.splits)

section \<open>Resuming after an offline period\<close>

text \<open>
  \<^verbatim>\<open>adjust_transmission_settings\<close> resumes the torrents in its last branch when the
  recorded tier is still \<^verbatim>\<open>"offline"\<close>: called by itself on a state that records
  Offline, it issues \<^verbatim>\<open>torrent-start\<close> and then \<^verbatim>\<open>session-set\<close>.
\<close>

lemma adjust_resumes_when_state_still_offline:
  "rpc_methods (snd (adjust_transmission_settings ''good'' w s_offline))
     = [''torrent-start'', ''session-set'']"
  by (simp add: adjust_methods s_offline_def)

text \<open>
  In the loop, however, \<^verbatim>\<open>main\<close> writes the new tier into the state before it calls
  \<^verbatim>\<open>adjust_transmission_settings\<close>, so the test for a previous Offline never holds: no
  cycle, from any state and in any environment, issues \<^verbatim>\<open>torrent-start\<close>.
\<close>

lemma cycle_never_resumes:
  "count_list (rpc_methods (snd (snd (cycle_body w s)))) ''torrent-start'' = 0"
  by (simp add: cycle_body_methods split: option.splits)

text \<open>
  Claim C1: a cycle whose previous recorded tier is Offline and whose classification is
  Good, Poor or VeryPoor issues exactly one resume-all directive, before or with the
  settings of the new tier. The code does not do this. At the transition from Offline
  (state \<open>s_offline\<close>) to Good (environment \<open>w_good\<close>) the cycle calls
  \<^verbatim>\<open>session-set\<close> and \<^verbatim>\<open>torrent-get\<close> and never \<^verbatim>\<open>torrent-start\<close>.
\<close>

theorem offline_to_good_issues_no_resume:
  "connection_quality s_offline = ''offline'' \<and> cycle_tier w_good = Some ''good''
   \<and> rpc_methods (snd (snd (cycle_body w_good s_offline))) = [''session-set'', ''torrent-get'']"
  by code_simp

section \<open>The reconnect counter\<close>

lemma count_after_step:
  "reconnect_count (fst (snd (loop_iteration w s))) = count_after (reconnect_count s) w"
  by (simp add: loop_iteration_state cycle_body_state count_after_def cycle_tier_def
        split: sum.splits)

lemma counts_after_states:
  "map reconnect_count (states_after ws s) = counts_after (reconnect_count s) ws"
  by (induction ws arbitrary: s) (simp_all add: Let_def count_after_step)

text \<open>
  Claim C2, as stated: the counter goes up by one on each cycle classified Offline. It fails
  when the reachability check succeeds and the measurement then finds no successful ping:
  the cycle records the tier Offline, and the counter, 1 before, is set to 0.
\<close>

theorem offline_tier_can_reset_counter:
  "cycle_tier w_lost = Some ''offline''
   \<and> reconnect_count (fst (snd (loop_iteration w_lost s_offline)))
       \<noteq> reconnect_count s_offline + 1"
  by code_simp

text \<open>
  Claim C2, amended: for every sequence of poll cycles, the counter goes up by exactly one
  on each cycle whose reachability check finds no host, is set to 0 by each cycle whose
  reachability check succeeds and whose measurement returns (whatever tier it returns), and
  is left as it is by a cycle that an exception ends before; nothing else changes it. For
  the cycles Offline, Offline, Offline, Good, Offline, the Offline ones without reachable
  host, the counter takes the values 1, 2, 3, 0, 1.
\<close>

theorem reconnect_count_follows_reachability:
  "map reconnect_count (states_after ws s) = counts_after (reconnect_count s) ws
   \<and> map cycle_tier [w_unreachable, w_unreachable, w_unreachable, w_good, w_unreachable]
       = [Some ''offline'', Some ''offline'', Some ''offline'', Some ''good'', Some ''offline'']
   \<and> map reconnect_count
        (states_after [w_unreachable, w_unreachable, w_unreachable, w_good, w_unreachable]
           (initial_state 0)) = [1, 2, 3, 0, 1]"
proof (intro conjI)
  show "map reconnect_count (states_after ws s) = counts_after (reconnect_count s) ws"
    by (rule counts_after_states)
  show "map cycle_tier [w_unreachable, w_unreachable, w_unreachable, w_good, w_unreachable]
       = [Some ''offline'', Some ''offline'', Some ''offline'', Some ''good'', Some ''offline'']"
    by code_simp
  show "map reconnect_count
        (states_after [w_unreachable, w_unreachable, w_unreachable, w_good, w_unreachable]
           (initial_state 0)) = [1, 2, 3, 0, 1]"
    by code_simp
qed

section \<open>The classifier\<close>






section \<open>Probes whose output cannot be read\<close>

text \<open>
  The extraction raises nothing but value and index errors, so every exception of the
  extraction is caught by the handler that counts the host with 1000 ms.
\<close>

lemma py_index_error: "py_index xs i = Inl e \<Longrightarrow> e = IndexError"
  by (simp add: py_index_def split: if_splits)

lemma extract_avg_time_errors:
  assumes "extract_avg_time out = Inl e"
  shows "e = ValueError \<or> e = IndexError"
  using assms
  by (auto simp: extract_avg_time_def Let_def dest: py_index_error
        split: if_splits sum.splits option.splits)

lemma host_sample_fallback:
  assumes "extract_avg_time out = Inl e"
  shows "host_sample (Completed 0 out) = Inr (Some 1000)"
  using extract_avg_time_errors [OF assms] assms by (auto simp: host_sample_def)

text \<open>
  Claim C4, as stated: when the probes of both hosts end with a non-zero exit status and an
  output that cannot be parsed, both hosts count with 1000 ms, the tier is VeryPoor and the
  VeryPoor settings are applied. It fails: a probe with a non-zero return code adds no
  sample, whatever its output, so there is no sample, the tier is Offline, and the settings
  applied are those of Offline.
\<close>

theorem nonzero_exit_probes_are_offline:
  "ping3 w_lost ''1.1.1.1'' = Completed 1 ''garbage''
   \<and> ping3 w_lost ''8.8.8.8'' = Completed 1 ''garbage''
   \<and> samples w_lost = []
   \<and> measure_connection_quality w_lost = Inr ''offline''
   \<and> applied_settings (snd (snd (cycle_body w_lost (initial_state 0)))) =
       [[(''alt-speed-enabled'', JBool True), (''alt-speed-down'', JNum 10),
         (''alt-speed-up'', JNum 1), (''download-queue-size'', JNum 1),
         (''peer-limit-global'', JNum 20), (''peer-limit-per-torrent'', JNum 5)]]"
  by code_simp

text \<open>
  Claim C4, amended: when the probes of both hosts end with exit status zero and an output
  on which the extraction of the latency raises an error, both hosts count with the
  fallback of 1000 ms, the mean is 1000 ms, the tier is VeryPoor, and the cycle (its
  reachability check having succeeded) applies alt-speed enabled, download cap 20, upload
  cap 2, queue size 1, global peer limit 30 and per-torrent peer limit 10.
\<close>

theorem unparsable_successful_probes_very_poor:
  assumes probes:
      "\<forall>host \<in> set PING_HOSTS. \<exists>out e.
          ping3 w host = Completed 0 out \<and> extract_avg_time out = Inl e"
    and reachable: "check_network_connectivity w = Inr True"
  shows "samples w = [1000, 1000]
       \<and> sum_list (samples w) / real (length (samples w)) = 1000
       \<and> measure_connection_quality w = Inr ''very_poor''
       \<and> applied_settings (snd (snd (cycle_body w s))) =
           [[(''alt-speed-enabled'', JBool True), (''alt-speed-down'', JNum 20),
             (''alt-speed-up'', JNum 2), (''download-queue-size'', JNum 1),
             (''peer-limit-global'', JNum 30), (''peer-limit-per-torrent'', JNum 10)]]"
proof -
  from probes have h1: "host_sample (ping3 w ''1.1.1.1'') = Inr (Some 1000)"
    and h2: "host_sample (ping3 w ''8.8.8.8'') = Inr (Some 1000)"
    by (auto simp: PING_HOSTS_def dest: host_sample_fallback)
  have smp: "samples w = [1000, 1000]"
    by (simp add: samples_def PING_HOSTS_def List.map_filter_simps h1 h2)
  have m: "measure_connection_quality w = Inr ''very_poor''"
    by (simp add: measure_connection_quality_def PING_HOSTS_def h1 h2 classify_def)
  have tier: "cycle_tier w = Some ''very_poor''"
    by (simp add: cycle_tier_def reachable m)
  have st: "applied_settings (snd (snd (cycle_body w s))) =
           [[(''alt-speed-enabled'', JBool True), (''alt-speed-down'', JNum 20),
             (''alt-speed-up'', JNum 2), (''download-queue-size'', JNum 1),
             (''peer-limit-global'', JNum 30), (''peer-limit-per-torrent'', JNum 10)]]"
    by (simp add: cycle_body_settings tier adjust_settings)
  from smp m st show ?thesis by simp
qed

text \<open>
  The amended claim at \<open>w_iputils\<close>: both probes succeed with the summary line of iputils
  ping, whose text after \<^verbatim>\<open>min/avg/max\<close> is \<^verbatim>\<open>/mdev = 10.1/12.3/15.0/1.2 ms\<close>, so that
  the piece handed to \<^verbatim>\<open>float\<close> is \<^verbatim>\<open>mdev = 10.1\<close>.
\<close>

theorem unparsable_successful_probes_witness:
  "ping3 w_iputils ''1.1.1.1'' = Completed 0 iputils_out
   \<and> ping3 w_iputils ''8.8.8.8'' = Completed 0 iputils_out
   \<and> extract_avg_time iputils_out = Inl ValueError
   \<and> samples w_iputils = [1000, 1000]
   \<and> measure_connection_quality w_iputils = Inr ''very_poor''
   \<and> applied_settings (snd (snd (cycle_body w_iputils (initial_state 0)))) =
           [[(''alt-speed-enabled'', JBool True), (''alt-speed-down'', JNum 20),
             (''alt-speed-up'', JNum 2), (''download-queue-size'', JNum 1),
             (''peer-limit-global'', JNum 30), (''peer-limit-per-torrent'', JNum 10)]]"
proof -
  have e: "extract_avg_time iputils_out = Inl ValueError" by code_simp
  have p: "\<forall>host \<in> set PING_HOSTS. \<exists>out e.
          ping3 w_iputils host = Completed 0 out \<and> extract_avg_time out = Inl e"
    using e by (simp add: w_iputils_def)
  have r: "check_network_connectivity w_iputils = Inr True" by code_simp
  from unparsable_successful_probes_very_poor [OF p r, of "initial_state 0"] e
  show ?thesis by (simp add: w_iputils_def)
qed

text \<open>
  Claim C5: a host whose probe succeeds but whose output yields no latency is not dropped
  and counts with 1000 ms. The code does this only when the extraction raises (as for the
  iputils summary, last conjunct). When the output holds no marker and no number followed
  by \<^verbatim>\<open> ms\<close>, or holds \<^verbatim>\<open>min/avg/max\<close> without a slash after it, the extraction ends
  without adding anything and without raising, and the host is dropped: two such hosts
  give no sample and the tier Offline.
\<close>

theorem successful_probe_without_latency_is_dropped:
  "extract_avg_time alive_out = Inr None
   \<and> host_sample (Completed 0 alive_out) = Inr None
   \<and> samples w_alive = []
   \<and> measure_connection_quality w_alive = Inr ''offline''
   \<and> host_sample (Completed 0 ''round-trip min/avg/max unknown'') = Inr None
   \<and> host_sample (Completed 0 iputils_out) = Inr (Some 1000)"
  by code_simp

section \<open>The policy table\<close>


section \<open>The bandwidth mode\<close>

lemma cycle_tier_tiers:
  assumes "cycle_tier w = Some q"
  shows "q = ''offline'' \<or> q = ''good'' \<or> q = ''poor'' \<or> q = ''very_poor''"
proof (cases "check_network_connectivity w = Inr True")
  case True
  with assms have "measure_connection_quality w = Inr q"
    by (simp add: cycle_tier_def split: sum.splits)
  then show ?thesis by (rule measure_tiers)
next
  case False
  with assms have "q = ''offline''"
    by (auto simp: cycle_tier_def split: sum.splits if_splits)
  then show ?thesis by simp
qed



text \<open>
  A cycle that records a tier leaves the mode of that tier in the state, whatever the state
  was before.
\<close>

lemma mode_after_classified_cycle:
  assumes "cycle_tier w = Some q"
  shows "Some (bandwidth_mode (fst (snd (loop_iteration w s))))
           = spec_bandwidth_mode (connection_quality (fst (snd (loop_iteration w s))))"
  using cycle_tier_tiers [OF assms]
  by (auto simp: loop_iteration_state cycle_body_state assms spec_bandwidth_mode_def)


section \<open>Pausing when offline\<close>





section \<open>The loop and its exception handler\<close>








text \<open>
  Three cycles: the ping program is missing, then Transmission sends a malformed torrent
  list, then all is well. The first two cycles raise, are logged, and the loop goes on; the
  second has written the state before it raised.
\<close>

lemma loop_survives_oserror_and_malformed_reply:
  "fst (cycle_body w_noping (initial_state 0)) = Some OSError
   \<and> fst (cycle_body w_malformed (initial_state 0)) = Some AttributeError
   \<and> fst (main_loop [w_noping, w_malformed, w_good] (initial_state 0)) = None
   \<and> other_events (snd (snd (main_loop [w_noping, w_malformed, w_good] (initial_state 0))))
       = [LogError OSError, Sleep 60, LogError AttributeError, Sleep 60, Sleep 60]
   \<and> map reconnect_count (states_after [w_noping, w_malformed, w_good] (initial_state 0))
       = [0, 0, 0]
   \<and> map last_online (states_after [w_noping, w_malformed, w_good] (initial_state 0))
       = [0, 100, 100]"
  by code_simp

section \<open>The state update and the gateway\<close>







text \<open>
  From the state after an offline cycle, a cycle in which both hosts answer and every call
  to Transmission fails: all five fields are written.
\<close>

lemma state_update_with_gateway_down:
  "loop_iteration w_gateway_down s_offline =
     (None,
      \<lparr> last_online = 100, is_online = True, connection_quality = ''good'',
        reconnect_count = 0, bandwidth_mode = ''normal'' \<rparr>,
      [RpcCall ''session-set''
         [(''alt-speed-enabled'', JBool False), (''download-queue-size'', JNum 3),
          (''peer-limit-global'', JNum 100), (''peer-limit-per-torrent'', JNum 30)] JNull,
       RpcCall ''torrent-get''
         [(''fields'',
           JList [JStr ''id'', JStr ''name'', JStr ''status'', JStr ''downloadDir'',
                  JStr ''percentDone'', JStr ''rateDownload'', JStr ''rateUpload''])] JNull,
       Sleep 60])"
  by code_simp

end
